theory Spec2Isabelle
  imports Complex_Main
begin

section \<open>Data model of \<^verbatim>\<open>src/js/app.js\<close> (class MapApp)\<close>

text \<open>
  The application is one JavaScript class whose methods mutate the fields of \<^verbatim>\<open>this\<close>
  and the DOM. The model passes the state explicitly. JavaScript numbers are modelled as
  \<^typ>\<open>real\<close>: the arithmetic of the source is read exactly, without IEEE rounding, so
  a property stated "within floating-point tolerance" is stated as an equation here.
  The only non-finite value the modelled arithmetic can produce is the 0 / 0 of the swipe
  percent, which has a value of its own.
  A JavaScript string is a sequence of UTF-16 code units. The model's strings are lists of
  8-bit characters, each standing for the code unit of the same number (0 to 255, the
  ISO 8859-1 range); on that range \<^verbatim>\<open>toLowerCase\<close> and \<^verbatim>\<open>trim\<close> are modelled as
  JavaScript defines them. Strings with a code unit above 255 are outside the type.
\<close>

text \<open>One record of \<^verbatim>\<open>data/markers_data.json\<close>, with the fields the code reads.
  The JSON fields \<^verbatim>\<open>top\<close> and \<^verbatim>\<open>left\<close> are percentages.\<close>

record marker =
  nom :: string
  categorie :: string
  top_pct :: real
  left_pct :: real
  position_approx :: string
  lore_desc :: string
  image_url :: string

text \<open>An uncaught exception of a handler. The handler stops where it throws; the fields it
  has already written keep their new values, so a thrown completion carries the state.\<close>

datatype js_error = TypeError | SyntaxError

datatype 's completion = Normal 's | Throw js_error 's

fun state_of :: "'s completion \<Rightarrow> 's" where
  "state_of (Normal s) = s"
| "state_of (Throw e s) = s"

text \<open>What \<^verbatim>\<open>document.querySelector\<close> can answer: an element, \<^verbatim>\<open>null\<close>, or a SyntaxError
  for a selector that does not parse.\<close>

datatype query_answer = AnElement | NoElement | InvalidSelector

text \<open>What the handlers read from the DOM when they run: the geometry
  (\<^verbatim>\<open>mapWrapper.getBoundingClientRect()\<close>, \<^verbatim>\<open>mapWrapper.clientWidth/clientHeight\<close>,
  \<^verbatim>\<open>mapContainer.getBoundingClientRect()\<close>) and, for the one selector the code builds from
  data (line 254), the answer of the document when the marker's name cannot stand
  unescaped inside the quoted attribute value (see \<open>querySelectorDataName\<close>).\<close>

record layout =
  wrapperRectLeft :: real
  wrapperRectWidth :: real
  wrapperRectHeight :: real
  wrapperClientWidth :: real
  wrapperClientHeight :: real
  containerRectLeft :: real
  containerRectTop :: real
  selectorAnswer :: query_answer

text \<open>The fields of MapApp (constructor, lines 20-28), followed by the parts of the DOM the
  methods write: the transform of \<^verbatim>\<open>#map-container\<close> as the triple (translate x, translate
  y, scale), its \<^verbatim>\<open>grabbing\<close> class, the children of \<^verbatim>\<open>#markers-container\<close> (each marker
  with whether it carries the class \<^verbatim>\<open>active\<close>), the \<^verbatim>\<open>hidden\<close> class of the tooltip,
  the \<^verbatim>\<open>data-filter\<close> of the button carrying \<^verbatim>\<open>active-filter\<close> (if any), the value of
  the search input and the records listed under \<^verbatim>\<open>#search-results\<close>.\<close>

record map_app =
  scale :: real
  translateX :: real
  translateY :: real
  isDragging :: bool
  lastX :: real
  lastY :: real
  markersData :: "marker list"
  activeMarker :: "marker option"
  containerTransform :: "real \<times> real \<times> real"
  grabbing :: bool
  renderedMarkers :: "(marker \<times> bool) list"
  tooltipHidden :: bool
  activeFilterBtn :: "string option"
  searchValue :: string
  searchResults :: "marker list"

text \<open>Mouse and touch events as the pan and swipe handlers receive them: the id of the
  target, then \<^verbatim>\<open>clientX, clientY\<close> of a mouse event (a touch event has none), or the
  \<^verbatim>\<open>touches\<close> list of a touch event (a mouse event has none).\<close>

datatype pointer_event =
  MouseEvent string real real
| TouchEvent string "(real \<times> real) list"

record wheel_event =
  deltaY :: real
  wheelClientX :: real
  wheelClientY :: real

section \<open>Rendering (lines 61-94, 369-371)\<close>

definition renderMap :: "map_app \<Rightarrow> map_app" where
  "renderMap st = st\<lparr>containerTransform := (translateX st, translateY st, scale st)\<rparr>"

definition isActiveMarker :: "map_app \<Rightarrow> marker \<Rightarrow> bool" where
  "isActiveMarker st markerData =
     (case activeMarker st of None \<Rightarrow> False | Some a \<Rightarrow> nom a = nom markerData)"

definition isVisible :: "string \<Rightarrow> marker \<Rightarrow> bool" where
  "isVisible filterCategory markerData =
     (filterCategory = ''all'' \<or> categorie markerData = filterCategory)"

definition renderMarkers :: "string \<Rightarrow> map_app \<Rightarrow> map_app" where
  "renderMarkers filterCategory st =
     st\<lparr>renderedMarkers :=
          map (\<lambda>markerData. (markerData, isActiveMarker st markerData))
            (filter (isVisible filterCategory) (markersData st))\<rparr>"

definition hideTooltip :: "map_app \<Rightarrow> map_app" where
  "hideTooltip st = st\<lparr>tooltipHidden := True\<rparr>"

text \<open>\<^verbatim>\<open>showTooltip\<close> (lines 344-364) fills the tooltip, positions it and removes its
  \<^verbatim>\<open>hidden\<close> class. Its first statement reads the bounding box of the marker element it is
  given, so it throws a TypeError when that element is \<^verbatim>\<open>null\<close>. The position of the
  tooltip is not modelled.\<close>

definition showTooltip :: "'e option \<Rightarrow> map_app \<Rightarrow> map_app completion" where
  "showTooltip markerElement st =
     (case markerElement of
        None \<Rightarrow> Throw TypeError st
      | Some el \<Rightarrow> Normal (st\<lparr>tooltipHidden := False\<rparr>))"

section \<open>Pan (lines 101-130)\<close>

fun targetId :: "pointer_event \<Rightarrow> string" where
  "targetId (MouseEvent t x y) = t"
| "targetId (TouchEvent t ts) = t"

text \<open>\<^verbatim>\<open>e.clientX || e.touches[0].clientX\<close>: the right operand is evaluated when
  \<^verbatim>\<open>e.clientX\<close> is falsy, that is undefined (touch event) or 0 (mouse event at the left
  edge of the viewport). A mouse event has no \<^verbatim>\<open>touches\<close>, and an empty touch list has no
  first element: both reads throw a TypeError.\<close>

fun pointerX :: "pointer_event \<Rightarrow> js_error + real" where
  "pointerX (MouseEvent t x y) = (if x \<noteq> 0 then Inr x else Inl TypeError)"
| "pointerX (TouchEvent t []) = Inl TypeError"
| "pointerX (TouchEvent t (p # ps)) = Inr (fst p)"

fun pointerY :: "pointer_event \<Rightarrow> js_error + real" where
  "pointerY (MouseEvent t x y) = (if y \<noteq> 0 then Inr y else Inl TypeError)"
| "pointerY (TouchEvent t []) = Inl TypeError"
| "pointerY (TouchEvent t (p # ps)) = Inr (snd p)"

definition handlePanStart :: "pointer_event \<Rightarrow> map_app \<Rightarrow> map_app completion" where
  "handlePanStart e st =
     (if targetId e = ''overlay-separator'' then Normal st
      else
        let st1 = st\<lparr>isDragging := True\<rparr> in
        case pointerX e of
          Inl err \<Rightarrow> Throw err st1
        | Inr x \<Rightarrow>
            let st2 = st1\<lparr>lastX := x\<rparr> in
            (case pointerY e of
               Inl err \<Rightarrow> Throw err st2
             | Inr y \<Rightarrow> Normal (st2\<lparr>lastY := y, grabbing := True\<rparr>)))"

definition handlePanMove :: "pointer_event \<Rightarrow> map_app \<Rightarrow> map_app completion" where
  "handlePanMove e st =
     (if \<not> isDragging st then Normal st
      else
        case pointerX e of
          Inl err \<Rightarrow> Throw err st
        | Inr clientX \<Rightarrow>
            (case pointerY e of
               Inl err \<Rightarrow> Throw err st
             | Inr clientY \<Rightarrow>
                 let dx = clientX - lastX st;
                     dy = clientY - lastY st
                 in Normal (hideTooltip (renderMap
                      (st\<lparr>translateX := translateX st + dx,
                          translateY := translateY st + dy,
                          lastX := clientX,
                          lastY := clientY\<rparr>)))))"

definition handlePanEnd :: "map_app \<Rightarrow> map_app" where
  "handlePanEnd st = st\<lparr>isDragging := False, grabbing := False\<rparr>"

section \<open>Clamp, zoom and reset (lines 135-218)\<close>

definition clampTranslations :: "layout \<Rightarrow> map_app \<Rightarrow> map_app" where
  "clampTranslations lay st =
     (let mapWidth = wrapperClientWidth lay * scale st;
          mapHeight = wrapperClientHeight lay * scale st;
          viewWidth = wrapperClientWidth lay;
          viewHeight = wrapperClientHeight lay;
          maxX = mapWidth - viewWidth;
          maxY = mapHeight - viewHeight
      in if scale st > 1
         then st\<lparr>translateX := max (min (translateX st) 0) (- maxX),
                 translateY := max (min (translateY st) 0) (- maxY)\<rparr>
         else st\<lparr>translateX := 0, translateY := 0\<rparr>)"

text \<open>The divisor \<open>newScale\<close> of both zoom handlers is at least 1, so the division of the
  source never meets a zero.\<close>

definition handleZoom :: "layout \<Rightarrow> wheel_event \<Rightarrow> map_app \<Rightarrow> map_app" where
  "handleZoom lay e st =
     (let zoomFactor = (if deltaY e < 0 then 1.1 else 0.9);
          newScale = max 1.0 (min 4.0 (scale st * zoomFactor))
      in if newScale = scale st then st
         else
           let cursorX = wheelClientX e - containerRectLeft lay;
               cursorY = wheelClientY e - containerRectTop lay
           in renderMap (clampTranslations lay
                (st\<lparr>translateX := translateX st - cursorX * (newScale - scale st) / newScale,
                    translateY := translateY st - cursorY * (newScale - scale st) / newScale,
                    scale := newScale\<rparr>)))"

definition zoom :: "layout \<Rightarrow> string \<Rightarrow> map_app \<Rightarrow> map_app" where
  "zoom lay direction st =
     (let factor = (if direction = ''in'' then 1.25 else 0.8);
          newScale = max 1.0 (min 4.0 (scale st * factor))
      in if newScale = scale st then st
         else
           let centerX = wrapperRectWidth lay / 2;
               centerY = wrapperRectHeight lay / 2
           in renderMap (clampTranslations lay
                (st\<lparr>translateX := translateX st - centerX * (newScale - scale st) / newScale,
                    translateY := translateY st - centerY * (newScale - scale st) / newScale,
                    scale := newScale\<rparr>)))"

definition getActiveFilter :: "map_app \<Rightarrow> string" where
  "getActiveFilter st = (case activeFilterBtn st of Some f \<Rightarrow> f | None \<Rightarrow> ''all'')"

definition resetView :: "map_app \<Rightarrow> map_app" where
  "resetView st =
     (let st1 = renderMap (hideTooltip
                 (st\<lparr>scale := 1.0, translateX := 0, translateY := 0, activeMarker := None\<rparr>))
      in renderMarkers (getActiveFilter st1) st1)"

definition handleFilterClick :: "string \<Rightarrow> map_app \<Rightarrow> map_app" where
  "handleFilterClick category st =
     renderMarkers category (hideTooltip (st\<lparr>activeFilterBtn := Some category, activeMarker := None\<rparr>))"

section \<open>Search and jump (lines 226-285)\<close>

text \<open>\<^verbatim>\<open>String.prototype.toLowerCase\<close> on one code unit below 256: the letters A to Z
  (65-90) and the capital letters of ISO 8859-1, U+00C0 to U+00DE without the
  multiplication sign U+00D7, move up by 32; every other code unit below 256 stays. No
  mapping on this range changes the length of the string.\<close>

definition toLowerCaseChar :: "char \<Rightarrow> char" where
  "toLowerCaseChar c =
     (let n = (of_char c :: nat)
      in if (65 \<le> n \<and> n \<le> 90) \<or> (192 \<le> n \<and> n \<le> 222 \<and> n \<noteq> 215)
         then char_of (n + 32) else c)"

definition toLowerCase :: "string \<Rightarrow> string" where
  "toLowerCase s = map toLowerCaseChar s"

text \<open>The white space and line terminators below 256 that \<^verbatim>\<open>String.prototype.trim\<close>
  removes: TAB, LF, VT, FF, CR (9-13), the space (32) and the no-break space U+00A0
  (160).\<close>

definition isWhiteSpace :: "char \<Rightarrow> bool" where
  "isWhiteSpace c =
     (let n = (of_char c :: nat) in (9 \<le> n \<and> n \<le> 13) \<or> n = 32 \<or> n = 160)"

definition trim :: "string \<Rightarrow> string" where
  "trim s = rev (dropWhile isWhiteSpace (rev (dropWhile isWhiteSpace s)))"

fun startsWith :: "string \<Rightarrow> string \<Rightarrow> bool" where
  "startsWith s [] = True"
| "startsWith [] (c # t) = False"
| "startsWith (d # s) (c # t) = (d = c \<and> startsWith s t)"

text \<open>\<^verbatim>\<open>String.prototype.includes\<close>: some position of \<open>s\<close> starts an occurrence of \<open>t\<close>.\<close>

fun includes_str :: "string \<Rightarrow> string \<Rightarrow> bool" where
  "includes_str [] t = (t = [])"
| "includes_str (d # s) t = (startsWith (d # s) t \<or> includes_str s t)"

definition handleSearchInput :: "map_app \<Rightarrow> map_app" where
  "handleSearchInput st =
     (let query = trim (toLowerCase (searchValue st));
          st1 = st\<lparr>searchResults := []\<rparr>
      in if length query < 2 then st1
         else st1\<lparr>searchResults :=
                filter (\<lambda>m. includes_str (toLowerCase (nom m)) query \<or>
                            includes_str (toLowerCase (position_approx m)) query)
                  (markersData st)\<rparr>)"

text \<open>Line 254 writes the name between double quotes into the selector
  \<^verbatim>\<open>[data-name="..."]\<close> without escaping it. The text between the quotes denotes the name
  itself exactly when the name has no double quote (34), no backslash (92), no line break
  (LF 10, FF 12, CR 13) and no NUL (0).\<close>

definition plainAttrValue :: "string \<Rightarrow> bool" where
  "plainAttrValue n = list_all (\<lambda>c. (of_char c :: nat) \<notin> set [0, 10, 12, 13, 34, 92]) n"

text \<open>\<^verbatim>\<open>document.querySelector('[data-name="..."]')\<close>. For a plain name: the first rendered
  marker whose \<^verbatim>\<open>data-name\<close> is that name, or \<^verbatim>\<open>null\<close> (the marker elements are taken to be
  the only elements that carry a \<^verbatim>\<open>data-name\<close>). For any other name the selector is a
  different one or none at all: the query throws a SyntaxError, returns \<^verbatim>\<open>null\<close>, or finds
  whatever the text happens to select. CSS parsing is not modelled; that answer is read
  from the DOM (\<open>selectorAnswer\<close>).\<close>

definition querySelectorDataName :: "layout \<Rightarrow> string \<Rightarrow> map_app \<Rightarrow> js_error + unit option" where
  "querySelectorDataName lay n st =
     (if plainAttrValue n
      then Inr (map_option (\<lambda>el. ()) (find (\<lambda>el. nom (fst el) = n) (renderedMarkers st)))
      else case selectorAnswer lay of
             InvalidSelector \<Rightarrow> Inl SyntaxError
           | NoElement \<Rightarrow> Inr None
           | AnElement \<Rightarrow> Inr (Some ()))"

definition jumpToMarker :: "layout \<Rightarrow> marker \<Rightarrow> map_app \<Rightarrow> map_app completion" where
  "jumpToMarker lay markerData st =
     (let st1 = renderMarkers (categorie markerData) (st\<lparr>activeMarker := Some markerData\<rparr>) in
      case querySelectorDataName lay (nom markerData) st1 of
        Inl err \<Rightarrow> Throw err st1
      | Inr markerElement \<Rightarrow>
          (case showTooltip markerElement st1 of
             Throw err st2 \<Rightarrow> Throw err st2
           | Normal st2 \<Rightarrow>
               let targetScale = 2.0;
                   viewCenterX = wrapperRectWidth lay / 2;
                   viewCenterY = wrapperRectHeight lay / 2;
                   markerX_norm = left_pct markerData / 100 * wrapperClientWidth lay;
                   markerY_norm = top_pct markerData / 100 * wrapperClientHeight lay;
                   newTranslateX = viewCenterX - (markerX_norm * targetScale);
                   newTranslateY = viewCenterY - (markerY_norm * targetScale)
               in Normal (renderMap
                    (st2\<lparr>scale := targetScale,
                         translateX := newTranslateX,
                         translateY := newTranslateY,
                         searchValue := [],
                         searchResults := []\<rparr>))))"

section \<open>Swipe (lines 418-434)\<close>

text \<open>The result of a JavaScript division: a number, or NaN when 0 is divided by 0.\<close>

datatype js_number = Num real | NaN

text \<open>The closure variable \<^verbatim>\<open>isSwiping\<close> and the two style values \<^verbatim>\<open>onSwipe\<close> writes:
  the left inset of the clip path of \<^verbatim>\<open>#overlay-wrapper\<close> and the \<^verbatim>\<open>left\<close> of the
  separator, both in percent. \<^verbatim>\<open>startSwipe\<close> and \<^verbatim>\<open>endSwipe\<close>, which set and clear
  \<^verbatim>\<open>isSwiping\<close>, are not modelled: "during a swipe" is \<open>isSwiping = True\<close>.\<close>

record swipe_state =
  isSwiping :: bool
  clipInsetLeft :: real
  separatorLeft :: real

text \<open>Lines 424-429. After the clamp \<open>newX\<close> is 0 whenever the width is 0, so the only
  division by zero is 0 / 0.\<close>

definition swipePercent :: "layout \<Rightarrow> real \<Rightarrow> js_number" where
  "swipePercent mapRect clientX =
     (let newX = clientX - wrapperRectLeft mapRect;
          newX = max 0 (min (wrapperRectWidth mapRect) newX)
      in if wrapperRectWidth mapRect = 0 then NaN
         else Num ((newX / wrapperRectWidth mapRect) * 100))"

text \<open>Lines 432-433 assign the texts \<^verbatim>\<open>inset(0 0 0 P%)\<close> and \<^verbatim>\<open>P%\<close>. For a number \<open>P\<close> both
  are valid values and are stored. For NaN the texts are \<^verbatim>\<open>inset(0 0 0 NaN%)\<close> and
  \<^verbatim>\<open>NaN%\<close>, which the style setters reject: both properties keep their previous
  values.\<close>

definition onSwipe :: "layout \<Rightarrow> pointer_event \<Rightarrow> swipe_state \<Rightarrow> swipe_state completion" where
  "onSwipe mapRect e sw =
     (if \<not> isSwiping sw then Normal sw
      else
        case pointerX e of
          Inl err \<Rightarrow> Throw err sw
        | Inr clientX \<Rightarrow>
            (case swipePercent mapRect clientX of
               NaN \<Rightarrow> Normal sw
             | Num percent \<Rightarrow>
                 Normal (sw\<lparr>clipInsetLeft := percent, separatorLeft := percent\<rparr>)))"

section \<open>Event dispatch (constructor and \<^verbatim>\<open>setupEventListeners\<close>, lines 6-41, 453-476)\<close>

text \<open>The state after the constructor and \<^verbatim>\<open>init\<close> with the loaded records:
  \<^verbatim>\<open>renderMap\<close> has run, no marker is rendered yet and the button "Tout" (filter
  \<^verbatim>\<open>all\<close>) carries \<^verbatim>\<open>active-filter\<close>. The page itself (index.html) is not among the
  sources: the tooltip is taken to start hidden and the search box empty, and no property
  below depends on either.\<close>

definition initial :: "marker list \<Rightarrow> map_app" where
  "initial records =
     renderMap
       \<lparr>scale = 1.0, translateX = 0, translateY = 0, isDragging = False,
        lastX = 0, lastY = 0, markersData = records, activeMarker = None,
        containerTransform = (0, 0, 1), grabbing = False, renderedMarkers = [],
        tooltipHidden = True, activeFilterBtn = Some ''all'',
        searchValue = [], searchResults = []\<rparr>"

text \<open>The inputs of the listeners. A wheel or button event comes with the geometry the
  handler reads; a click on the \<open>i\<close>-th search result calls \<^verbatim>\<open>jumpToMarker\<close> on that
  record; typing sets the value of the search input and fires \<^verbatim>\<open>input\<close>.\<close>

datatype input =
  PointerDown pointer_event
| PointerMove pointer_event
| PointerUp
| Wheel layout wheel_event
| ZoomIn layout
| ZoomOut layout
| ResetClick
| FilterClick string
| SearchInput string
| ResultClick layout nat
| TooltipClose

fun dispatch :: "input \<Rightarrow> map_app \<Rightarrow> map_app completion" where
  "dispatch (PointerDown e) st = handlePanStart e st"
| "dispatch (PointerMove e) st = handlePanMove e st"
| "dispatch PointerUp st = Normal (handlePanEnd st)"
| "dispatch (Wheel lay e) st = Normal (handleZoom lay e st)"
| "dispatch (ZoomIn lay) st = Normal (zoom lay ''in'' st)"
| "dispatch (ZoomOut lay) st = Normal (zoom lay ''out'' st)"
| "dispatch ResetClick st = Normal (resetView st)"
| "dispatch (FilterClick c) st = Normal (handleFilterClick c st)"
| "dispatch (SearchInput v) st = Normal (handleSearchInput (st\<lparr>searchValue := v\<rparr>))"
| "dispatch (ResultClick lay i) st =
     (if i < length (searchResults st) then jumpToMarker lay (searchResults st ! i) st
      else Normal st)"
| "dispatch TooltipClose st = Normal (hideTooltip st)"

text \<open>The event loop: an uncaught exception ends the handler, not the application.\<close>

fun run :: "input list \<Rightarrow> map_app \<Rightarrow> map_app" where
  "run [] st = st"
| "run (i # is) st = run is (state_of (dispatch i st))"

section \<open>Screen projection\<close>

text \<open>The transform \<^verbatim>\<open>translate(tx px, ty px) scale(s)\<close> written by \<^verbatim>\<open>renderMap\<close> sends the
  content point \<open>(x, y)\<close> (pixels of the unscaled container) to the wrapper pixel
  \<open>(tx + x * s, ty + y * s)\<close>: the reading that \<^verbatim>\<open>jumpToMarker\<close> spells out (line 269,
  \<^verbatim>\<open>NewX = ViewCenterX - (MarkerX_norm * NewScale)\<close>).\<close>

definition project :: "real \<times> real \<times> real \<Rightarrow> real \<times> real \<Rightarrow> real \<times> real" where
  "project tr p = (fst tr + fst p * snd (snd tr), fst (snd tr) + snd p * snd (snd tr))"

text \<open>A marker is placed at \<^verbatim>\<open>left%\<close>, \<^verbatim>\<open>top%\<close> of the container (lines 78-79); in pixels
  at scale 1 (lines 265-266):\<close>

definition markerPixel :: "layout \<Rightarrow> marker \<Rightarrow> real \<times> real" where
  "markerPixel lay m =
     (left_pct m / 100 * wrapperClientWidth lay, top_pct m / 100 * wrapperClientHeight lay)"

section \<open>Concrete scenarios\<close>

text \<open>A wrapper of 1000 by 800 pixels at the top-left corner of the viewport, with the
  container box at its untransformed place. A selector that does not parse throws.\<close>

definition lay1000 :: layout where
  "lay1000 = \<lparr>wrapperRectLeft = 0, wrapperRectWidth = 1000, wrapperRectHeight = 800,
      wrapperClientWidth = 1000, wrapperClientHeight = 800,
      containerRectLeft = 0, containerRectTop = 0, selectorAnswer = InvalidSelector\<rparr>"

text \<open>The same wrapper 200 pixels from the left edge of the viewport.\<close>

definition lay200 :: layout where
  "lay200 = \<lparr>wrapperRectLeft = 200, wrapperRectWidth = 1000, wrapperRectHeight = 800,
      wrapperClientWidth = 1000, wrapperClientHeight = 800,
      containerRectLeft = 200, containerRectTop = 0, selectorAnswer = InvalidSelector\<rparr>"

text \<open>One wheel tick towards the user (zoom in) with the cursor at (100, 100).\<close>

definition wheelIn :: wheel_event where
  "wheelIn = \<lparr>deltaY = - 100, wheelClientX = 100, wheelClientY = 100\<rparr>"

definition ironforge :: marker where
  "ironforge = \<lparr>nom = ''Ironforge'', categorie = ''Capitals'', top_pct = 50, left_pct = 50,
     position_approx = ''Dun Morogh'', lore_desc = [], image_url = []\<rparr>"

definition excavation :: marker where
  "excavation = \<lparr>nom = ''Dig site'', categorie = ''Ruins'', top_pct = 0, left_pct = 0,
     position_approx = ''near the Ironband Excavation'', lore_desc = [], image_url = []\<rparr>"

definition stormwind :: marker where
  "stormwind = \<lparr>nom = ''Stormwind'', categorie = ''Capitals'', top_pct = 70, left_pct = 40,
     position_approx = ''Elwynn Forest'', lore_desc = [], image_url = []\<rparr>"

text \<open>A record named \<^verbatim>\<open>a"b\<close> (the middle character is the double quote, 34) at
  top = 50, left = 50, and a record whose name is For, e with circumflex (234), t.\<close>

definition quoted :: marker where
  "quoted = \<lparr>nom = [CHR ''a'', CHR 0x22, CHR ''b''], categorie = ''Capitals'', top_pct = 50,
     left_pct = 50, position_approx = ''Dun Morogh'', lore_desc = [], image_url = []\<rparr>"

definition foret :: marker where
  "foret = \<lparr>nom = [CHR ''F'', CHR ''o'', CHR ''r'', CHR 0xEA, CHR ''t''], categorie = ''Forests'',
     top_pct = 20, left_pct = 30, position_approx = ''Kalimdor'', lore_desc = [],
     image_url = []\<rparr>"

definition swiping :: swipe_state where
  "swiping = \<lparr>isSwiping = True, clipInsetLeft = 50, separatorLeft = 50\<rparr>"

text \<open>A short drag to the right followed by one wheel tick.\<close>

definition panZoomOps :: "input list" where
  "panZoomOps =
     [PointerDown (MouseEvent ''map-container'' 10 10),
      PointerMove (MouseEvent ''map-container'' 15 10),
      PointerUp,
      Wheel lay1000 wheelIn]"

section \<open>Predicates on inputs and states\<close>

text \<open>The pan, zoom and jump inputs.\<close>

fun isCameraInput :: "input \<Rightarrow> bool" where
  "isCameraInput (PointerDown e) = True"
| "isCameraInput (PointerMove e) = True"
| "isCameraInput PointerUp = True"
| "isCameraInput (Wheel lay e) = True"
| "isCameraInput (ZoomIn lay) = True"
| "isCameraInput (ZoomOut lay) = True"
| "isCameraInput (ResultClick lay i) = True"
| "isCameraInput i = False"

fun isPanMove :: "input \<Rightarrow> bool" where
  "isPanMove (PointerMove e) = True"
| "isPanMove i = False"

text \<open>The invariant of the clamp: at scale 1 the translation is (0, 0).\<close>

definition originAtUnitScale :: "map_app \<Rightarrow> bool" where
  "originAtUnitScale st = (scale st \<noteq> 1 \<or> (translateX st = 0 \<and> translateY st = 0))"

section \<open>The search contract in the words of the specification\<close>

text \<open>"Case-insensitive substring": after lower-casing both, the query occurs somewhere in
  the text. This definition follows the specification, not the code; the theorems of the
  search section compare it with what \<^verbatim>\<open>handleSearchInput\<close> computes.\<close>

definition containsIgnoringCase :: "string \<Rightarrow> string \<Rightarrow> bool" where
  "containsIgnoringCase text q = (\<exists>pre post. toLowerCase text = pre @ toLowerCase q @ post)"

section \<open>Clamp\<close>

lemma clamp_value_idem: "max (min (max (min x 0) c) 0) c = max (min x (0::real)) c"
  by (simp add: max_def min_def)

text \<open>C7. Clamp is idempotent: for every state (any scale and translation) and every fixed
  wrapper width and height, clamping twice gives the same state as clamping once.\<close>

theorem clampTranslations_idempotent:
  "clampTranslations lay (clampTranslations lay st) = clampTranslations lay st"
  by (simp add: clampTranslations_def Let_def clamp_value_idem)

section \<open>Scale bounds\<close>

lemma scale_clampTranslations: "scale (clampTranslations lay st) = scale st"
  by (simp add: clampTranslations_def Let_def)

lemma scale_handleZoom:
  "1 \<le> scale st \<Longrightarrow> scale st \<le> 4 \<Longrightarrow>
   1 \<le> scale (handleZoom lay e st) \<and> scale (handleZoom lay e st) \<le> 4"
  by (simp add: handleZoom_def Let_def renderMap_def scale_clampTranslations)

lemma scale_zoom:
  "1 \<le> scale st \<Longrightarrow> scale st \<le> 4 \<Longrightarrow>
   1 \<le> scale (zoom lay d st) \<and> scale (zoom lay d st) \<le> 4"
  by (simp add: zoom_def Let_def renderMap_def scale_clampTranslations)

text \<open>A jump either throws before it writes the scale, or sets the scale to 2.\<close>

lemma scale_jumpToMarker:
  "scale (state_of (jumpToMarker lay m st)) = scale st \<or>
   scale (state_of (jumpToMarker lay m st)) = 2"
  by (simp add: jumpToMarker_def showTooltip_def Let_def renderMap_def renderMarkers_def
      split: sum.splits option.splits)

lemma scale_resetView: "scale (resetView st) = 1"
  by (simp add: resetView_def Let_def renderMap_def renderMarkers_def hideTooltip_def)

text \<open>C3. From a state whose scale lies in [1, 4], the scale after a wheel zoom, a button
  zoom, a jump to a marker or a reset lies in [1, 4] again.\<close>

theorem scale_stays_in_range:
  assumes "1 \<le> scale st" and "scale st \<le> 4"
  shows "(1 \<le> scale (handleZoom lay e st) \<and> scale (handleZoom lay e st) \<le> 4) \<and>
         (1 \<le> scale (zoom lay direction st) \<and> scale (zoom lay direction st) \<le> 4) \<and>
         (1 \<le> scale (state_of (jumpToMarker lay m st)) \<and>
            scale (state_of (jumpToMarker lay m st)) \<le> 4) \<and>
         (1 \<le> scale (resetView st) \<and> scale (resetView st) \<le> 4)"
proof -
  have jump: "1 \<le> scale (state_of (jumpToMarker lay m st)) \<and>
      scale (state_of (jumpToMarker lay m st)) \<le> 4"
    using scale_jumpToMarker [of lay m st] assms by auto
  show ?thesis
    using scale_handleZoom [OF assms] scale_zoom [OF assms] jump
    by (simp add: scale_resetView)
qed

theorem scale_stays_in_range_witness:
  "1 \<le> scale (initial [ironforge]) \<and> scale (initial [ironforge]) \<le> 4 \<and>
   scale (handleZoom lay1000 wheelIn (initial [ironforge])) = 11 / 10 \<and>
   scale (zoom lay1000 ''in'' (initial [ironforge])) = 5 / 4 \<and>
   scale (state_of (jumpToMarker lay1000 ironforge (initial [ironforge]))) = 2 \<and>
   scale (resetView (initial [ironforge])) = 1 \<and>
   1 \<le> scale (handleZoom lay1000 wheelIn (initial [ironforge])) \<and>
   scale (handleZoom lay1000 wheelIn (initial [ironforge])) \<le> 4"
  using scale_stays_in_range [of "initial [ironforge]" lay1000 wheelIn "''in''" ironforge]
  by (simp add: initial_def renderMap_def handleZoom_def zoom_def jumpToMarker_def
      showTooltip_def querySelectorDataName_def plainAttrValue_def renderMarkers_def
      isVisible_def isActiveMarker_def resetView_def hideTooltip_def clampTranslations_def
      lay1000_def wheelIn_def ironforge_def Let_def)

section \<open>Jump to a marker\<close>

text \<open>A jump to a loaded record with a plain name completes: \<^verbatim>\<open>renderMarkers\<close> has just
  rendered the record's category, so the element lookup finds an element.\<close>

lemma jumpToMarker_loaded:
  assumes "m \<in> set (markersData st)" and "plainAttrValue (nom m)"
  shows "jumpToMarker lay m st =
     Normal (renderMap
       ((renderMarkers (categorie m) (st\<lparr>activeMarker := Some m\<rparr>))
          \<lparr>tooltipHidden := False, scale := 2,
           translateX := wrapperRectWidth lay / 2 - left_pct m / 100 * wrapperClientWidth lay * 2,
           translateY := wrapperRectHeight lay / 2 - top_pct m / 100 * wrapperClientHeight lay * 2,
           searchValue := [], searchResults := []\<rparr>))"
proof -
  let ?st1 = "renderMarkers (categorie m) (st\<lparr>activeMarker := Some m\<rparr>)"
  have "(m, True) \<in> set (renderedMarkers ?st1)"
    using assms(1) by (auto simp: renderMarkers_def isVisible_def isActiveMarker_def)
  then have "find (\<lambda>el. nom (fst el) = nom m) (renderedMarkers ?st1) \<noteq> None"
    unfolding find_None_iff by force
  then obtain el where "find (\<lambda>el. nom (fst el) = nom m) (renderedMarkers ?st1) = Some el"
    by auto
  then have "querySelectorDataName lay (nom m) ?st1 = Inr (Some ())"
    using assms(2) by (simp add: querySelectorDataName_def)
  then show ?thesis
    by (simp add: jumpToMarker_def showTooltip_def Let_def)
qed

text \<open>The scenario of C4 for records with a plain name: with top = 50 and left = 50 and a
  wrapper of width 1000 and height 800, the jump completes with scale 2 and the
  translation \<open>viewCenter - markerPixelPos * 2 = (-500, -400)\<close>, and the rendered transform
  sends the marker's pixel position to the centre of the wrapper, (500, 400).\<close>

lemma jump_centres_plain_marker:
  assumes "m \<in> set (markersData st)" and "plainAttrValue (nom m)"
    and "top_pct m = 50" and "left_pct m = 50"
    and "wrapperRectWidth lay = 1000" and "wrapperRectHeight lay = 800"
    and "wrapperClientWidth lay = 1000" and "wrapperClientHeight lay = 800"
  shows "\<exists>st'. jumpToMarker lay m st = Normal st' \<and> scale st' = 2 \<and>
           translateX st' = 500 - fst (markerPixel lay m) * 2 \<and>
           translateY st' = 400 - snd (markerPixel lay m) * 2 \<and>
           translateX st' = - 500 \<and> translateY st' = - 400 \<and>
           containerTransform st' = (translateX st', translateY st', scale st') \<and>
           project (containerTransform st') (markerPixel lay m) = (500, 400)"
  using assms
  by (simp add: jumpToMarker_loaded renderMap_def renderMarkers_def project_def markerPixel_def)

lemma plainAttrValue_ironforge: "plainAttrValue (nom ironforge)"
  by (simp add: plainAttrValue_def ironforge_def)

lemma jump_centres_ironforge:
  "scale (state_of (jumpToMarker lay1000 ironforge (initial [ironforge]))) = 2 \<and>
   project (containerTransform (state_of (jumpToMarker lay1000 ironforge (initial [ironforge]))))
     (markerPixel lay1000 ironforge) = (500, 400)"
  using jump_centres_plain_marker [of ironforge "initial [ironforge]" lay1000]
    plainAttrValue_ironforge
  by (auto simp: initial_def renderMap_def lay1000_def ironforge_def)

text \<open>C4, on the code: the record named \<^verbatim>\<open>a"b\<close> has top = 50 and left = 50 and is loaded,
  and the wrapper is 1000 by 800. Line 254 builds the selector \<^verbatim>\<open>[data-name="a"b"]\<close>,
  which does not parse: \<^verbatim>\<open>querySelector\<close> throws before the scale and the translation are
  written. The state keeps scale 1 and translation (0, 0), under which the marker's pixel
  position (500, 400) is not moved to the centre at scale 2 but shown as before.\<close>

theorem jump_throws_on_quoted_name:
  "quoted \<in> set (markersData (initial [quoted])) \<and>
   top_pct quoted = 50 \<and> left_pct quoted = 50 \<and>
   wrapperRectWidth lay1000 = 1000 \<and> wrapperRectHeight lay1000 = 800 \<and>
   wrapperClientWidth lay1000 = 1000 \<and> wrapperClientHeight lay1000 = 800 \<and>
   \<not> plainAttrValue (nom quoted) \<and>
   jumpToMarker lay1000 quoted (initial [quoted]) =
     Throw SyntaxError
       (renderMarkers (categorie quoted) ((initial [quoted])\<lparr>activeMarker := Some quoted\<rparr>)) \<and>
   scale (state_of (jumpToMarker lay1000 quoted (initial [quoted]))) = 1 \<and>
   translateX (state_of (jumpToMarker lay1000 quoted (initial [quoted]))) = 0 \<and>
   translateY (state_of (jumpToMarker lay1000 quoted (initial [quoted]))) = 0 \<and>
   containerTransform (state_of (jumpToMarker lay1000 quoted (initial [quoted]))) = (0, 0, 1)"
proof -
  have p: "\<not> plainAttrValue (nom quoted)"
    by (simp add: plainAttrValue_def quoted_def)
  have j: "jumpToMarker lay1000 quoted (initial [quoted]) =
     Throw SyntaxError
       (renderMarkers (categorie quoted) ((initial [quoted])\<lparr>activeMarker := Some quoted\<rparr>))"
    using p by (simp add: jumpToMarker_def querySelectorDataName_def lay1000_def Let_def)
  show ?thesis
    unfolding j using p
    by (simp add: renderMarkers_def initial_def renderMap_def lay1000_def quoted_def)
qed

text \<open>C9. The jump does not clamp: for a loaded record with a plain name at left = 0,
  top = 0 and a wrapper of width \<open>w > 0\<close>, the jump leaves \<open>translateX = w / 2 > 0\<close>, outside
  the range \<open>[-(w * 2 - w), 0]\<close> of the clamp at scale 2; clamping the result would move it
  to 0.\<close>

theorem jump_is_not_clamped:
  assumes "m \<in> set (markersData st)" and "plainAttrValue (nom m)"
    and "left_pct m = 0" and "top_pct m = 0"
    and "0 < w" and "wrapperRectWidth lay = w" and "wrapperClientWidth lay = w"
  shows "\<exists>st'. jumpToMarker lay m st = Normal st' \<and> scale st' = 2 \<and>
           translateX st' = w / 2 \<and> 0 < translateX st' \<and>
           \<not> (- (w * 2 - w) \<le> translateX st' \<and> translateX st' \<le> 0) \<and>
           translateX (clampTranslations lay st') = 0 \<and>
           clampTranslations lay st' \<noteq> st'"
proof -
  from jumpToMarker_loaded [OF assms(1,2), of lay]
  obtain st' where j: "jumpToMarker lay m st = Normal st'" and s: "scale st' = 2"
    and t: "translateX st' = w / 2"
    using assms by (simp add: renderMap_def renderMarkers_def)
  have c: "translateX (clampTranslations lay st') = 0"
    using s t assms by (simp add: clampTranslations_def Let_def)
  have "clampTranslations lay st' \<noteq> st'"
    using c t assms(5) by auto
  with j s t c assms(5) show ?thesis by auto
qed

theorem jump_is_not_clamped_witness:
  "excavation \<in> set (markersData (initial [ironforge, excavation])) \<and>
   plainAttrValue (nom excavation) \<and>
   left_pct excavation = 0 \<and> top_pct excavation = 0 \<and> (0::real) < 1000 \<and>
   wrapperRectWidth lay1000 = 1000 \<and> wrapperClientWidth lay1000 = 1000 \<and>
   translateX (state_of (jumpToMarker lay1000 excavation (initial [ironforge, excavation]))) = 500 \<and>
   translateX (clampTranslations lay1000
     (state_of (jumpToMarker lay1000 excavation (initial [ironforge, excavation])))) = 0"
proof -
  have p: "plainAttrValue (nom excavation)"
    by (simp add: plainAttrValue_def excavation_def)
  show ?thesis
    using jump_is_not_clamped [of excavation "initial [ironforge, excavation]" 1000 lay1000] p
    by (auto simp: initial_def renderMap_def lay1000_def excavation_def)
qed

section \<open>Swipe\<close>

text \<open>Whenever the handler reads a horizontal position and the wrapper has a positive
  width, the percent written to the clip and to the separator lies in [0, 100]; at or
  beyond the right edge it is exactly 100, at or before the left edge 0.\<close>

lemma swipe_percent_when_read:
  assumes "isSwiping sw" and "0 < wrapperRectWidth mapRect" and "pointerX e = Inr x"
  shows "\<exists>p. onSwipe mapRect e sw = Normal (sw\<lparr>clipInsetLeft := p, separatorLeft := p\<rparr>) \<and>
           0 \<le> p \<and> p \<le> 100 \<and>
           (wrapperRectLeft mapRect + wrapperRectWidth mapRect \<le> x \<longrightarrow> p = 100) \<and>
           (x \<le> wrapperRectLeft mapRect \<longrightarrow> p = 0)"
proof -
  let ?w = "wrapperRectWidth mapRect"
  let ?newX = "max 0 (min ?w (x - wrapperRectLeft mapRect))"
  have r: "0 \<le> ?newX" "?newX \<le> ?w" using assms(2) by auto
  have on: "onSwipe mapRect e sw =
      Normal (sw\<lparr>clipInsetLeft := ?newX / ?w * 100, separatorLeft := ?newX / ?w * 100\<rparr>)"
    using assms by (simp add: onSwipe_def swipePercent_def Let_def)
  have lo: "0 \<le> ?newX / ?w * 100" using r assms(2) by simp
  have hi: "?newX / ?w * 100 \<le> 100" using r assms(2) by (simp add: divide_le_eq)
  have right: "wrapperRectLeft mapRect + ?w \<le> x \<Longrightarrow> ?newX / ?w * 100 = 100"
    using assms(2) by (simp add: min_def max_def)
  have left: "x \<le> wrapperRectLeft mapRect \<Longrightarrow> ?newX / ?w * 100 = 0"
    using assms(2) by (simp add: min_def max_def)
  from on lo hi right left show ?thesis by blast
qed

lemma swipe_beyond_right_edge:
  "onSwipe lay1000 (MouseEvent ''overlay-separator'' 1500 10) swiping =
     Normal (swiping\<lparr>clipInsetLeft := 100, separatorLeft := 100\<rparr>)"
  using swipe_percent_when_read [of swiping lay1000 "MouseEvent ''overlay-separator'' 1500 10" 1500]
  by (auto simp: swiping_def lay1000_def)

text \<open>C8, on the code: the wrapper starts 200 pixels from the left edge of the viewport and
  the separator stands at 50 percent. During the swipe the mouse reaches the left edge of
  the viewport, \<^verbatim>\<open>clientX = 0\<close>, a position left of the wrapper's left edge. There
  \<^verbatim>\<open>e.clientX || e.touches[0].clientX\<close> (line 420) takes 0 for missing and reads
  \<^verbatim>\<open>touches\<close> of a mouse event: the handler throws, no percent is computed and the
  separator stays at 50, where one pixel further right (\<^verbatim>\<open>clientX = 1\<close>) it moves to 0.\<close>

theorem swipe_throws_at_viewport_edge:
  "isSwiping swiping \<and>
   onSwipe lay200 (MouseEvent ''overlay-separator'' 0 10) swiping = Throw TypeError swiping \<and>
   separatorLeft (state_of (onSwipe lay200 (MouseEvent ''overlay-separator'' 0 10) swiping)) = 50 \<and>
   clipInsetLeft (state_of (onSwipe lay200 (MouseEvent ''overlay-separator'' 0 10) swiping)) = 50 \<and>
   onSwipe lay200 (MouseEvent ''overlay-separator'' 1 10) swiping =
     Normal (swiping\<lparr>clipInsetLeft := 0, separatorLeft := 0\<rparr>)"
  by (simp add: onSwipe_def swipePercent_def swiping_def lay200_def Let_def)

section \<open>Reset\<close>

lemma resetView_state:
  "resetView st = st\<lparr>scale := 1, translateX := 0, translateY := 0, activeMarker := None,
      tooltipHidden := True, containerTransform := (0, 0, 1),
      renderedMarkers := map (\<lambda>m. (m, False)) (filter (isVisible (getActiveFilter st)) (markersData st))\<rparr>"
  by (simp add: resetView_def renderMap_def hideTooltip_def renderMarkers_def getActiveFilter_def
      isActiveMarker_def Let_def)

text \<open>Pan, zoom and jump neither move the \<^verbatim>\<open>active-filter\<close> class nor change the loaded
  records.\<close>

lemma dispatch_camera_keeps_filter:
  "isCameraInput i \<Longrightarrow>
   activeFilterBtn (state_of (dispatch i st)) = activeFilterBtn st \<and>
   markersData (state_of (dispatch i st)) = markersData st"
proof (cases i)
  case (PointerDown e)
  then show ?thesis
    by (simp add: handlePanStart_def Let_def split: sum.splits)
next
  case (PointerMove e)
  then show ?thesis
    by (simp add: handlePanMove_def Let_def renderMap_def hideTooltip_def split: sum.splits)
next
  case PointerUp
  then show ?thesis by (simp add: handlePanEnd_def)
next
  case (Wheel lay e)
  then show ?thesis
    by (simp add: handleZoom_def clampTranslations_def renderMap_def Let_def)
next
  case (ZoomIn lay)
  then show ?thesis
    by (simp add: zoom_def clampTranslations_def renderMap_def Let_def)
next
  case (ZoomOut lay)
  then show ?thesis
    by (simp add: zoom_def clampTranslations_def renderMap_def Let_def)
next
  case (ResultClick lay n)
  then show ?thesis
    by (simp add: jumpToMarker_def showTooltip_def renderMarkers_def renderMap_def Let_def
        split: sum.splits option.splits)
qed simp_all

lemma run_camera_keeps_filter:
  "\<forall>i \<in> set ops. isCameraInput i \<Longrightarrow>
   activeFilterBtn (run ops st) = activeFilterBtn st \<and> markersData (run ops st) = markersData st"
proof (induction ops arbitrary: st)
  case Nil
  then show ?case by simp
next
  case (Cons i ops)
  then show ?case using dispatch_camera_keeps_filter [of i st] by simp
qed

text \<open>C6. From every state, reset sets the scale to 1 and the translation to (0, 0),
  clears the active marker, hides the tooltip and renders the markers of the currently
  selected filter, which it leaves selected. After a click on the filter \<open>c\<close> and any
  sequence of pan, zoom and jump inputs, the selected filter is still \<open>c\<close> and reset renders
  the records visible under \<open>c\<close>.\<close>

theorem resetView_keeps_filter:
  assumes "\<forall>i \<in> set ops. isCameraInput i"
  shows "scale (resetView st) = 1 \<and> translateX (resetView st) = 0 \<and>
         translateY (resetView st) = 0 \<and> containerTransform (resetView st) = (0, 0, 1) \<and>
         activeMarker (resetView st) = None \<and> tooltipHidden (resetView st) \<and>
         renderedMarkers (resetView st) =
           map (\<lambda>m. (m, False)) (filter (isVisible (getActiveFilter st)) (markersData st)) \<and>
         getActiveFilter (resetView st) = getActiveFilter st \<and>
         getActiveFilter (run ops (handleFilterClick c st)) = c \<and>
         renderedMarkers (resetView (run ops (handleFilterClick c st))) =
           map (\<lambda>m. (m, False)) (filter (isVisible c) (markersData st))"
proof -
  have f: "activeFilterBtn (handleFilterClick c st) = Some c"
      "markersData (handleFilterClick c st) = markersData st"
    by (simp_all add: handleFilterClick_def renderMarkers_def hideTooltip_def)
  have r: "activeFilterBtn (run ops (handleFilterClick c st)) = Some c"
      "markersData (run ops (handleFilterClick c st)) = markersData st"
    using run_camera_keeps_filter [OF assms, of "handleFilterClick c st"] f by simp_all
  have g: "getActiveFilter (run ops (handleFilterClick c st)) = c"
    using r by (simp add: getActiveFilter_def)
  show ?thesis
    using g r by (simp add: resetView_state getActiveFilter_def)
qed

theorem resetView_keeps_filter_witness:
  "list_all isCameraInput panZoomOps \<and>
   translateX (run panZoomOps
     (handleFilterClick ''Capitals'' (initial [ironforge, excavation, stormwind]))) \<noteq> 0 \<and>
   scale (resetView (run panZoomOps
     (handleFilterClick ''Capitals'' (initial [ironforge, excavation, stormwind])))) = 1 \<and>
   translateX (resetView (run panZoomOps
     (handleFilterClick ''Capitals'' (initial [ironforge, excavation, stormwind])))) = 0 \<and>
   getActiveFilter (resetView (run panZoomOps
     (handleFilterClick ''Capitals'' (initial [ironforge, excavation, stormwind])))) = ''Capitals'' \<and>
   renderedMarkers (resetView (run panZoomOps
     (handleFilterClick ''Capitals'' (initial [ironforge, excavation, stormwind])))) =
     [(ironforge, False), (stormwind, False)]"
proof -
  let ?ini = "initial [ironforge, excavation, stormwind]"
  let ?cur = "run panZoomOps (handleFilterClick ''Capitals'' ?ini)"
  have ops: "\<forall>i \<in> set panZoomOps. isCameraInput i"
    by (simp add: panZoomOps_def)
  have md: "markersData ?ini = [ironforge, excavation, stormwind]"
    by (simp add: initial_def renderMap_def)
  have vis: "filter (isVisible ''Capitals'') [ironforge, excavation, stormwind] = [ironforge, stormwind]"
    by (simp add: isVisible_def ironforge_def excavation_def stormwind_def)
  have raw: "getActiveFilter ?cur = ''Capitals'' \<and>
      renderedMarkers (resetView ?cur) =
        map (\<lambda>m. (m, False)) (filter (isVisible ''Capitals'') (markersData ?ini))"
    using resetView_keeps_filter [OF ops, of ?ini "''Capitals''"] by blast
  have a: "getActiveFilter ?cur = ''Capitals''"
    using raw by blast
  have b: "renderedMarkers (resetView ?cur) = [(ironforge, False), (stormwind, False)]"
    using raw unfolding md vis by simp
  have c: "scale (resetView ?cur) = 1" and d: "translateX (resetView ?cur) = 0"
    and e: "getActiveFilter (resetView ?cur) = getActiveFilter ?cur"
    using resetView_keeps_filter [OF ops, of ?cur "''Capitals''"] by simp_all
  have t: "translateX ?cur \<noteq> 0"
    by (simp add: panZoomOps_def initial_def handleFilterClick_def renderMarkers_def
        hideTooltip_def handlePanStart_def handlePanMove_def handlePanEnd_def renderMap_def
        handleZoom_def clampTranslations_def lay1000_def wheelIn_def Let_def)
  from ops a b c d e t show ?thesis
    by (simp add: list_all_iff)
qed

section \<open>Translation at scale 1\<close>

text \<open>C2, on the code: a drag of 5 pixels from the initial state leaves scale 1 with the
  translation (5, 0), and that transform is rendered. \<^verbatim>\<open>handlePanMove\<close> adds the delta and
  renders without clamping.\<close>

theorem pan_is_not_clamped:
  "scale (run [PointerDown (MouseEvent ''map-container'' 10 10),
               PointerMove (MouseEvent ''map-container'' 15 10)] (initial [])) = 1 \<and>
   translateX (run [PointerDown (MouseEvent ''map-container'' 10 10),
               PointerMove (MouseEvent ''map-container'' 15 10)] (initial [])) = 5 \<and>
   containerTransform (run [PointerDown (MouseEvent ''map-container'' 10 10),
               PointerMove (MouseEvent ''map-container'' 15 10)] (initial [])) = (5, 0, 1)"
  by (simp add: initial_def handlePanStart_def handlePanMove_def renderMap_def hideTooltip_def
      Let_def)

text \<open>Every other input keeps the invariant: the two zoom handlers clamp whenever they
  change the scale, a jump sets the scale to 2 and reset writes (0, 0).\<close>

lemma clampTranslations_origin: "originAtUnitScale (clampTranslations lay st)"
  by (simp add: originAtUnitScale_def clampTranslations_def Let_def)

lemma renderMap_origin: "originAtUnitScale (renderMap st) = originAtUnitScale st"
  by (simp add: originAtUnitScale_def renderMap_def)

lemma handleZoom_origin: "originAtUnitScale st \<Longrightarrow> originAtUnitScale (handleZoom lay e st)"
  by (simp add: handleZoom_def Let_def renderMap_origin clampTranslations_origin)

lemma zoom_origin: "originAtUnitScale st \<Longrightarrow> originAtUnitScale (zoom lay d st)"
  by (simp add: zoom_def Let_def renderMap_origin clampTranslations_origin)

lemma jumpToMarker_origin:
  "originAtUnitScale st \<Longrightarrow> originAtUnitScale (state_of (jumpToMarker lay m st))"
  by (simp add: originAtUnitScale_def jumpToMarker_def showTooltip_def renderMarkers_def
      renderMap_def Let_def split: sum.splits option.splits)

lemma resetView_origin: "originAtUnitScale (resetView st)"
  by (simp add: originAtUnitScale_def resetView_state)

lemma dispatch_origin:
  assumes "\<not> isPanMove i" and "originAtUnitScale st"
  shows "originAtUnitScale (state_of (dispatch i st))"
proof (cases i)
  case (PointerDown e)
  then show ?thesis using assms(2)
    by (simp add: originAtUnitScale_def handlePanStart_def Let_def split: sum.splits)
next
  case (PointerMove e)
  then show ?thesis using assms(1) by simp
next
  case PointerUp
  then show ?thesis using assms(2) by (simp add: originAtUnitScale_def handlePanEnd_def)
next
  case (Wheel lay e)
  then show ?thesis using assms(2) by (simp add: handleZoom_origin)
next
  case (ZoomIn lay)
  then show ?thesis using assms(2) by (simp add: zoom_origin)
next
  case (ZoomOut lay)
  then show ?thesis using assms(2) by (simp add: zoom_origin)
next
  case ResetClick
  then show ?thesis by (simp add: resetView_origin)
next
  case (FilterClick c)
  then show ?thesis using assms(2)
    by (simp add: originAtUnitScale_def handleFilterClick_def renderMarkers_def hideTooltip_def)
next
  case (SearchInput v)
  then show ?thesis using assms(2)
    by (simp add: originAtUnitScale_def handleSearchInput_def Let_def)
next
  case (ResultClick lay n)
  then show ?thesis using assms(2) by (simp add: jumpToMarker_origin)
next
  case TooltipClose
  then show ?thesis using assms(2) by (simp add: originAtUnitScale_def hideTooltip_def)
qed

lemma run_origin_without_pan:
  "\<forall>i \<in> set ops. \<not> isPanMove i \<Longrightarrow> originAtUnitScale st \<Longrightarrow> originAtUnitScale (run ops st)"
  by (induction ops arbitrary: st) (simp_all add: dispatch_origin)

section \<open>Zoom about the cursor\<close>

text \<open>C1, on the code: in the initial state the content point (100, 100) is under the
  cursor at (100, 100). One wheel tick there sets the scale to 1.1 and the translation to
  \<open>-100 * 0.1 / 1.1 = -100/11\<close> (the clamp to \<open>[-100, 0]\<close> changes nothing), which sends that
  content point to \<open>1110/11\<close>, about 0.91 pixel away from the cursor.\<close>

theorem wheel_zoom_moves_pivot:
  "project (containerTransform (initial [])) (100, 100) = (100, 100) \<and>
   scale (handleZoom lay1000 wheelIn (initial [])) = 11 / 10 \<and>
   translateX (handleZoom lay1000 wheelIn (initial [])) = - (100 / 11) \<and>
   translateY (handleZoom lay1000 wheelIn (initial [])) = - (100 / 11) \<and>
   project (containerTransform (handleZoom lay1000 wheelIn (initial []))) (100, 100)
     = (1110 / 11, 1110 / 11)"
  by (simp add: initial_def handleZoom_def clampTranslations_def renderMap_def project_def
      lay1000_def wheelIn_def Let_def)

section \<open>Search\<close>

lemma startsWith_iff: "startsWith s t \<longleftrightarrow> (\<exists>post. s = t @ post)"
  by (induction s t rule: startsWith.induct) auto

text \<open>\<open>includes_str\<close> is the substring test.\<close>

lemma includes_str_iff: "includes_str s t \<longleftrightarrow> (\<exists>pre post. s = pre @ t @ post)"
proof (induction s)
  case Nil
  then show ?case by simp
next
  case (Cons d s)
  have "(\<exists>pre post. d # s = pre @ t @ post) \<longleftrightarrow>
        (\<exists>post. d # s = t @ post) \<or> (\<exists>pre post. s = pre @ t @ post)"
  proof
    assume "\<exists>pre post. d # s = pre @ t @ post"
    then obtain pre post where e: "d # s = pre @ t @ post" by blast
    show "(\<exists>post. d # s = t @ post) \<or> (\<exists>pre post. s = pre @ t @ post)"
    proof (cases pre)
      case Nil
      with e show ?thesis by auto
    next
      case (Cons a pre')
      with e have "s = pre' @ t @ post" by simp
      then show ?thesis by blast
    qed
  next
    assume "(\<exists>post. d # s = t @ post) \<or> (\<exists>pre post. s = pre @ t @ post)"
    then show "\<exists>pre post. d # s = pre @ t @ post"
    proof
      assume "\<exists>post. d # s = t @ post"
      then obtain post where "d # s = [] @ t @ post" by auto
      then show ?thesis by blast
    next
      assume "\<exists>pre post. s = pre @ t @ post"
      then obtain pre post where "d # s = (d # pre) @ t @ post" by auto
      then show ?thesis by blast
    qed
  qed
  with Cons show ?case by (simp add: startsWith_iff)
qed

text \<open>Lower-casing maps no code unit to or from white space, so it commutes with
  \<open>trim\<close>: the code lower-cases first and trims second.\<close>

lemma isWhiteSpace_toLowerCaseChar: "isWhiteSpace (toLowerCaseChar c) = isWhiteSpace c"
  by (simp add: toLowerCaseChar_def isWhiteSpace_def Let_def)

lemma dropWhile_toLowerCase:
  "dropWhile isWhiteSpace (toLowerCase s) = toLowerCase (dropWhile isWhiteSpace s)"
  by (induction s) (simp_all add: toLowerCase_def isWhiteSpace_toLowerCaseChar)

lemma rev_toLowerCase: "rev (toLowerCase s) = toLowerCase (rev s)"
  by (simp add: toLowerCase_def rev_map)

lemma trim_toLowerCase: "trim (toLowerCase s) = toLowerCase (trim s)"
  by (simp add: trim_def dropWhile_toLowerCase rev_toLowerCase)

lemma containsIgnoringCase_includes:
  "containsIgnoringCase text q = includes_str (toLowerCase text) (toLowerCase q)"
  by (simp add: containsIgnoringCase_def includes_str_iff)

text \<open>C5 as stated fails: the query \<^verbatim>\<open>"iron "\<close> (five characters, the last a space) is no
  substring of "Ironforge" or of "Dun Morogh" in any case, yet the search returns the
  record, because the handler trims the query.\<close>

theorem search_untrimmed_counterexample:
  "searchResults (handleSearchInput ((initial [ironforge])\<lparr>searchValue := ''iron ''\<rparr>)) = [ironforge] \<and>
   \<not> containsIgnoringCase (nom ironforge) ''iron '' \<and>
   \<not> containsIgnoringCase (position_approx ironforge) ''iron ''"
proof -
  have a: "searchResults (handleSearchInput ((initial [ironforge])\<lparr>searchValue := ''iron ''\<rparr>))
      = [ironforge]"
    by code_simp
  have b: "\<not> includes_str (toLowerCase (nom ironforge)) (toLowerCase ''iron '')"
    by code_simp
  have c: "\<not> includes_str (toLowerCase (position_approx ironforge)) (toLowerCase ''iron '')"
    by code_simp
  show ?thesis
    using a b c by (simp add: containsIgnoringCase_includes)
qed

text \<open>C5, amended. For every list of loaded records and every query, the search returns
  exactly the records whose name or position label contains the trimmed query as a
  case-insensitive substring, in the order of loading (a \<open>filter\<close> of the loaded list), and
  nothing when the lower-cased, trimmed query has fewer than 2 characters.\<close>

theorem search_matches_trimmed_query:
  "searchResults (handleSearchInput st) =
     (if length (trim (toLowerCase (searchValue st))) < 2 then []
      else filter (\<lambda>m. containsIgnoringCase (nom m) (trim (searchValue st)) \<or>
                       containsIgnoringCase (position_approx m) (trim (searchValue st)))
             (markersData st))"
  by (simp add: handleSearchInput_def Let_def trim_toLowerCase containsIgnoringCase_includes)

text \<open>The example of the specification: "iron" finds the record named "Ironforge" and the
  record whose position label is "near the Ironband Excavation", in that order, and not
  "Stormwind"; the one-character query "i" finds nothing.\<close>

theorem search_matches_trimmed_query_witness:
  "searchResults (handleSearchInput
     ((initial [ironforge, excavation, stormwind])\<lparr>searchValue := ''iron''\<rparr>)) =
     [ironforge, excavation] \<and>
   searchResults (handleSearchInput
     ((initial [ironforge, excavation, stormwind])\<lparr>searchValue := ''i''\<rparr>)) = []"
proof -
  let ?ini = "initial [ironforge, excavation, stormwind]"
  have sv: "searchValue (?ini\<lparr>searchValue := ''iron''\<rparr>) = ''iron''"
      "searchValue (?ini\<lparr>searchValue := ''i''\<rparr>) = ''i''"
    by simp_all
  have md: "markersData (?ini\<lparr>searchValue := ''iron''\<rparr>) = [ironforge, excavation, stormwind]"
    by (simp add: initial_def renderMap_def)
  have t: "trim ''iron'' = ''iron''"
    by code_simp
  have l: "\<not> length (trim (toLowerCase ''iron'')) < 2" "length (trim (toLowerCase ''i'')) < 2"
    by code_simp+
  have "filter (\<lambda>m. includes_str (toLowerCase (nom m)) (toLowerCase ''iron'') \<or>
                    includes_str (toLowerCase (position_approx m)) (toLowerCase ''iron''))
          [ironforge, excavation, stormwind] = [ironforge, excavation]"
    by code_simp
  then have f: "filter (\<lambda>m. containsIgnoringCase (nom m) ''iron'' \<or>
                    containsIgnoringCase (position_approx m) ''iron'')
          [ironforge, excavation, stormwind] = [ironforge, excavation]"
    unfolding containsIgnoringCase_includes .
  have a: "searchResults (handleSearchInput (?ini\<lparr>searchValue := ''iron''\<rparr>)) =
      [ironforge, excavation]"
    using search_matches_trimmed_query [of "?ini\<lparr>searchValue := ''iron''\<rparr>"] l(1)
    unfolding sv md t f by simp
  have b: "searchResults (handleSearchInput (?ini\<lparr>searchValue := ''i''\<rparr>)) = []"
    using search_matches_trimmed_query [of "?ini\<lparr>searchValue := ''i''\<rparr>"] l(2)
    unfolding sv by simp
  from a b show ?thesis by simp
qed

text \<open>C10. The handler lower-cases and trims the raw query before the length check and
  before matching: a query whose lower-cased, trimmed form has fewer than 2 characters
  gives no result, whatever its raw length; every other query is matched in that form, as
  a substring of the lower-cased name or of the lower-cased position label.\<close>

theorem search_normalises_query:
  "(length (trim (toLowerCase q)) < 2 \<longrightarrow>
      searchResults (handleSearchInput (st\<lparr>searchValue := q\<rparr>)) = []) \<and>
   (2 \<le> length (trim (toLowerCase q)) \<longrightarrow>
      searchResults (handleSearchInput (st\<lparr>searchValue := q\<rparr>)) =
        filter (\<lambda>m. (\<exists>pre post. toLowerCase (nom m) = pre @ trim (toLowerCase q) @ post) \<or>
                    (\<exists>pre post. toLowerCase (position_approx m) =
                        pre @ trim (toLowerCase q) @ post))
          (markersData st))"
  by (simp add: handleSearchInput_def Let_def includes_str_iff)

text \<open>Four queries against the records Ironforge, Dig site, Stormwind and the forest
  (named For, code unit 234, t): \<^verbatim>\<open>" a "\<close> (raw length 3) finds nothing; \<^verbatim>\<open>" IRON "\<close> and
  "ir" followed by a no-break space (160) find Ironforge and the dig site; "FOR", the
  capital letter 202, "T" finds the forest.\<close>

theorem search_normalises_query_witness:
  "length '' a '' = 3 \<and> length (trim (toLowerCase '' a '')) < 2 \<and>
   searchResults (handleSearchInput
     ((initial [ironforge, excavation, stormwind, foret])\<lparr>searchValue := '' a ''\<rparr>)) = [] \<and>
   2 \<le> length (trim (toLowerCase '' IRON '')) \<and>
   searchResults (handleSearchInput
     ((initial [ironforge, excavation, stormwind, foret])\<lparr>searchValue := '' IRON ''\<rparr>)) =
     [ironforge, excavation] \<and>
   searchResults (handleSearchInput
     ((initial [ironforge, excavation, stormwind, foret])
        \<lparr>searchValue := [CHR ''i'', CHR ''r'', CHR 0xA0]\<rparr>)) =
     [ironforge, excavation] \<and>
   searchResults (handleSearchInput
     ((initial [ironforge, excavation, stormwind, foret])
        \<lparr>searchValue := [CHR ''F'', CHR ''O'', CHR ''R'', CHR 0xCA, CHR ''T'']\<rparr>)) =
     [foret]"
proof -
  let ?ini = "initial [ironforge, excavation, stormwind, foret]"
  let ?nbsp = "[CHR ''i'', CHR ''r'', CHR 0xA0]"
  let ?caps = "[CHR ''F'', CHR ''O'', CHR ''R'', CHR 0xCA, CHR ''T'']"
  have s: "length (trim (toLowerCase '' a '')) < 2" by code_simp
  have l: "2 \<le> length (trim (toLowerCase '' IRON ''))"
      "2 \<le> length (trim (toLowerCase ?nbsp))" "2 \<le> length (trim (toLowerCase ?caps))"
    by code_simp+
  have md: "markersData ?ini = [ironforge, excavation, stormwind, foret]"
    by (simp add: initial_def renderMap_def)
  have "filter (\<lambda>m. includes_str (toLowerCase (nom m)) (trim (toLowerCase '' IRON '')) \<or>
                    includes_str (toLowerCase (position_approx m)) (trim (toLowerCase '' IRON '')))
          [ironforge, excavation, stormwind, foret] = [ironforge, excavation]"
    by code_simp
  then have f1: "filter
      (\<lambda>m. (\<exists>pre post. toLowerCase (nom m) = pre @ trim (toLowerCase '' IRON '') @ post) \<or>
           (\<exists>pre post. toLowerCase (position_approx m) =
               pre @ trim (toLowerCase '' IRON '') @ post))
      [ironforge, excavation, stormwind, foret] = [ironforge, excavation]"
    unfolding includes_str_iff .
  have "filter (\<lambda>m. includes_str (toLowerCase (nom m)) (trim (toLowerCase ?nbsp)) \<or>
                    includes_str (toLowerCase (position_approx m)) (trim (toLowerCase ?nbsp)))
          [ironforge, excavation, stormwind, foret] = [ironforge, excavation]"
    by code_simp
  then have f2: "filter
      (\<lambda>m. (\<exists>pre post. toLowerCase (nom m) = pre @ trim (toLowerCase ?nbsp) @ post) \<or>
           (\<exists>pre post. toLowerCase (position_approx m) = pre @ trim (toLowerCase ?nbsp) @ post))
      [ironforge, excavation, stormwind, foret] = [ironforge, excavation]"
    unfolding includes_str_iff .
  have "filter (\<lambda>m. includes_str (toLowerCase (nom m)) (trim (toLowerCase ?caps)) \<or>
                    includes_str (toLowerCase (position_approx m)) (trim (toLowerCase ?caps)))
          [ironforge, excavation, stormwind, foret] = [foret]"
    by code_simp
  then have f3: "filter
      (\<lambda>m. (\<exists>pre post. toLowerCase (nom m) = pre @ trim (toLowerCase ?caps) @ post) \<or>
           (\<exists>pre post. toLowerCase (position_approx m) = pre @ trim (toLowerCase ?caps) @ post))
      [ironforge, excavation, stormwind, foret] = [foret]"
    unfolding includes_str_iff .
  have a: "searchResults (handleSearchInput (?ini\<lparr>searchValue := '' a ''\<rparr>)) = []"
    using search_normalises_query [of "'' a ''" ?ini] s by blast
  have b: "searchResults (handleSearchInput (?ini\<lparr>searchValue := '' IRON ''\<rparr>)) =
      [ironforge, excavation]"
    using search_normalises_query [of "'' IRON ''" ?ini] l(1) unfolding md f1 by blast
  have c: "searchResults (handleSearchInput (?ini\<lparr>searchValue := ?nbsp\<rparr>)) =
      [ironforge, excavation]"
    using search_normalises_query [of ?nbsp ?ini] l(2) unfolding md f2 by blast
  have d: "searchResults (handleSearchInput (?ini\<lparr>searchValue := ?caps\<rparr>)) = [foret]"
    using search_normalises_query [of ?caps ?ini] l(3) unfolding md f3 by blast
  from s l(1) a b c d show ?thesis by simp
qed

end
